theory Spec2Isabelle
  imports Complex_Main "HOL-Library.Sublist"
begin

section \<open>The notebook simulating-desi-spectra.ipynb\<close>

text \<open>
  The repository is one Jupyter notebook. Its own logic is: building file paths below
  \<^verbatim>\<open>$SCRATCH\<close>, writing one FITS file with two HDUs, building four command lines and
  handing them to the shell with IPython's \<^verbatim>\<open>!$cmd\<close>, and one array expression for the
  velocity offset. Template generation (\<^verbatim>\<open>desisim\<close>), the simulation (\<^verbatim>\<open>quickspectra\<close>)
  and the redshift fit (\<^verbatim>\<open>rrdesi\<close>) are external programs: what they do to the file
  system and which exit status they return is a parameter of the model.

  A code cell is a function from the notebook's state to an optional exception and the
  state the cell leaves behind: a cell that raises keeps the assignments and the files it
  made before the exception.
\<close>

subsection \<open>Exceptions\<close>

datatype error =
    KeyError string
  | NameError string
  | OSError string
  | ValueError
  | IndexError

subsection \<open>Arrays, FITS files and the state of the notebook\<close>

datatype ndarray = Array1 "real list" | Array2 "real list list"

type_synonym path = string

type_synonym Header = "(string \<times> string) list"

record hdu =
  hdu_header :: Header
  hdu_data :: ndarray

type_synonym fits_file = "hdu list"

type_synonym filesystem = "path \<rightharpoonup> fits_file"

record notebook =
  environ :: "string \<rightharpoonup> string"
  files :: filesystem
  unwritable :: "path set"
  vars :: "string \<rightharpoonup> string"
  stdout :: "string list"
  exit_code :: "int option"

text \<open>
  \<open>environ\<close> is \<^verbatim>\<open>os.environ\<close>; \<open>files\<close> maps the path of each existing file to its
  HDUs; \<open>unwritable\<close> holds the paths at which the operating system refuses to create or
  write (directories are not tracked otherwise); \<open>vars\<close> holds the string variables of
  the Python namespace (\<^verbatim>\<open>simdir\<close>, \<^verbatim>\<open>infile\<close>, \<^verbatim>\<open>cmd\<close>, ...); \<open>stdout\<close> the lines printed;
  \<open>exit_code\<close> is IPython's \<^verbatim>\<open>_exit_code\<close>.

  An external program is run by the shell: given the command line, the environment it
  inherits and the file system, it returns its exit status and the file system it leaves.
\<close>

type_synonym shell = "string \<Rightarrow> (string \<rightharpoonup> string) \<Rightarrow> filesystem \<Rightarrow> nat \<times> filesystem"

type_synonym cell = "notebook \<Rightarrow> error option \<times> notebook"

subsection \<open>Library functions the cells call\<close>

text \<open>\<^verbatim>\<open>os.path.join\<close> of posixpath: an absolute component restarts the path; a separator
  is inserted unless the path so far is empty or already ends with one.\<close>

fun startswith_sep :: "string \<Rightarrow> bool" where
  "startswith_sep [] = False"
| "startswith_sep (c # cs) = (c = CHR ''/'')"

definition endswith_sep :: "string \<Rightarrow> bool" where
  "endswith_sep p = (p \<noteq> [] \<and> last p = CHR ''/'')"

definition join_step :: "path \<Rightarrow> string \<Rightarrow> path" where
  "join_step p b =
     (if startswith_sep b then b
      else if p = [] \<or> endswith_sep p then p @ b
      else p @ ''/'' @ b)"

definition join :: "path \<Rightarrow> string list \<Rightarrow> path" where
  "join a ps = foldl join_step a ps"

text \<open>\<^verbatim>\<open>str.format\<close>, for the replacement fields the notebook's templates use: \<^verbatim>\<open>{}\<close> takes
  the next positional argument, \<^verbatim>\<open>{name}\<close> the keyword argument of that name; \<^verbatim>\<open>{{\<close> and
  \<^verbatim>\<open>}}\<close> are literal braces. The first argument of \<open>format_scan\<close> is \<open>None\<close> in literal
  text and \<open>Some name\<close> inside a replacement field whose name has been read so far.\<close>

fun emit :: "string \<Rightarrow> error + string \<Rightarrow> error + string" where
  "emit x (Inl e) = Inl e"
| "emit x (Inr r) = Inr (x @ r)"

fun format_scan ::
  "string option \<Rightarrow> string list \<Rightarrow> (string \<times> string) list \<Rightarrow> string \<Rightarrow> error + string" where
  "format_scan None args kwargs [] = Inr []"
| "format_scan (Some n) args kwargs [] = Inl ValueError"
| "format_scan None args kwargs (c # cs) =
     (if c = CHR ''{'' then
        (case cs of
           [] \<Rightarrow> Inl ValueError
         | d # ds \<Rightarrow>
             if d = CHR ''{'' then emit ''{'' (format_scan None args kwargs ds)
             else format_scan (Some []) args kwargs cs)
      else if c = CHR ''}'' then
        (case cs of
           [] \<Rightarrow> Inl ValueError
         | d # ds \<Rightarrow>
             if d = CHR ''}'' then emit ''}'' (format_scan None args kwargs ds)
             else Inl ValueError)
      else emit [c] (format_scan None args kwargs cs))"
| "format_scan (Some n) args kwargs (c # cs) =
     (if c = CHR ''}'' then
        (if n = [] then
           (case args of
              [] \<Rightarrow> Inl IndexError
            | a # as \<Rightarrow> emit a (format_scan None as kwargs cs))
         else
           (case map_of kwargs n of
              None \<Rightarrow> Inl (KeyError n)
            | Some v \<Rightarrow> emit v (format_scan None args kwargs cs)))
      else if c = CHR ''{'' then Inl ValueError
      else format_scan (Some (n @ [c])) args kwargs cs)"

definition format :: "string \<Rightarrow> string list \<Rightarrow> (string \<times> string) list \<Rightarrow> error + string" where
  "format template args kwargs = format_scan None args kwargs template"

text \<open>\<^verbatim>\<open>hdr[key] = value\<close> on an \<^verbatim>\<open>astropy.io.fits.Header\<close>: the card of an existing
  keyword is replaced in place, a new keyword is appended.\<close>

fun setitem :: "Header \<Rightarrow> string \<Rightarrow> string \<Rightarrow> Header" where
  "setitem [] k v = [(k, v)]"
| "setitem ((k', v') # h) k v =
     (if k' = k then (k, v) # h else (k', v') # setitem h k v)"

text \<open>\<^verbatim>\<open>os.makedirs(p, exist_ok=True)\<close> raises when the directory cannot be created or the
  path is an existing file.\<close>

definition makedirs :: "path \<Rightarrow> notebook \<Rightarrow> error + notebook" where
  "makedirs p s =
     (if p \<in> unwritable s \<or> files s p \<noteq> None then Inl (OSError p) else Inr s)"

text \<open>\<^verbatim>\<open>fits.writeto(filename, data, header=..., overwrite=...)\<close>: a new file holding one
  HDU; an existing non-empty file is replaced only with \<^verbatim>\<open>overwrite=True\<close>.\<close>

definition writeto :: "path \<Rightarrow> ndarray \<Rightarrow> Header \<Rightarrow> bool \<Rightarrow> notebook \<Rightarrow> error + notebook" where
  "writeto filename d header overwrite s =
     (if (case files s filename of None \<Rightarrow> False | Some hdus \<Rightarrow> hdus \<noteq> []) \<and> \<not> overwrite
        then Inl (OSError filename)
      else if filename \<in> unwritable s then Inl (OSError filename)
      else Inr (s\<lparr>files := (files s)(filename \<mapsto> [\<lparr>hdu_header = header, hdu_data = d\<rparr>])\<rparr>))"

text \<open>\<^verbatim>\<open>fits.append(filename, data, header=...)\<close>: a missing or empty file is written as by
  \<^verbatim>\<open>writeto\<close>; otherwise one HDU is added after the existing ones.\<close>

definition append :: "path \<Rightarrow> ndarray \<Rightarrow> Header \<Rightarrow> notebook \<Rightarrow> error + notebook" where
  "append filename d header s =
     (case files s filename of
        None \<Rightarrow> writeto filename d header False s
      | Some hdus \<Rightarrow>
          if hdus = [] then writeto filename d header False s
          else if filename \<in> unwritable s then Inl (OSError filename)
          else Inr (s\<lparr>files := (files s)(filename \<mapsto>
                 hdus @ [\<lparr>hdu_header = header, hdu_data = d\<rparr>])\<rparr>))"

definition assign :: "string \<Rightarrow> string \<Rightarrow> notebook \<Rightarrow> notebook" where
  "assign v x s = s\<lparr>vars := (vars s)(v \<mapsto> x)\<rparr>"

definition print :: "string \<Rightarrow> notebook \<Rightarrow> notebook" where
  "print line s = s\<lparr>stdout := stdout s @ [line]\<rparr>"

text \<open>IPython's \<^verbatim>\<open>!$cmd\<close>: the command line is handed to the system shell, the cell waits
  for it, and the value IPython derives from the exit status is stored in \<^verbatim>\<open>_exit_code\<close>:
  the status itself up to 128, and \<^verbatim>\<open>-(status - 128)\<close> above, where the shell reports a
  terminating signal. Nothing is raised.\<close>

definition ipython_exit_code :: "nat \<Rightarrow> int" where
  "ipython_exit_code status = (if status > 128 then - (int status - 128) else int status)"

definition system :: "shell \<Rightarrow> string \<Rightarrow> notebook \<Rightarrow> notebook" where
  "system sh c s =
     (case sh c (environ s) (files s) of
        (status, fs) \<Rightarrow> s\<lparr>files := fs, exit_code := Some (ipython_exit_code status)\<rparr>)"

text \<open>The shell splits an unquoted command line into words at blanks.\<close>

fun split_words :: "string \<Rightarrow> string \<Rightarrow> string list" where
  "split_words w [] = (if w = [] then [] else [w])"
| "split_words w (c # cs) =
     (if c = CHR '' '' then (if w = [] then [] else [w]) @ split_words [] cs
      else split_words (w @ [c]) cs)"

definition argv :: "string \<Rightarrow> string list" where
  "argv c = split_words [] c"

text \<open>``Run All'': the cells in order, stopping at the first one that raises.\<close>

fun run_all :: "cell list \<Rightarrow> cell" where
  "run_all [] s = (None, s)"
| "run_all (c # cs) s =
     (case c s of
        (None, s') \<Rightarrow> run_all cs s'
      | (Some e, s') \<Rightarrow> (Some e, s'))"

subsection \<open>Writing the input spectra (source lines 175--184)\<close>

text \<open>\<^verbatim>\<open>wave\<close> and \<^verbatim>\<open>flux\<close> are the arrays \<^verbatim>\<open>make_templates\<close> returned.\<close>

definition write_input_spectra :: "real list \<Rightarrow> real list list \<Rightarrow> cell" where
  "write_input_spectra wave flux s =
     (case environ s ''SCRATCH'' of
        None \<Rightarrow> (Some (KeyError ''SCRATCH''), s)
      | Some scratch \<Rightarrow>
          let simdir = join scratch [''desi'', ''simspec''];
              s1 = assign ''simdir'' simdir s
          in (case makedirs simdir s1 of
                Inl e \<Rightarrow> (Some e, s1)
              | Inr s2 \<Rightarrow>
                  let infile = join simdir [''qso-input-spectra.fits''];
                      s3 = assign ''infile'' infile s2;
                      hdr = setitem [] ''EXTNAME'' ''WAVELENGTH'';
                      hdr = setitem hdr ''BUNIT'' ''Angstrom''
                  in (case writeto infile (Array1 wave) hdr True s3 of
                        Inl e \<Rightarrow> (Some e, s3)
                      | Inr s4 \<Rightarrow>
                          let hdr = setitem hdr ''EXTNAME'' ''FLUX'';
                              hdr = setitem hdr ''BUNIT'' ''10^-17 erg/(s*cm^2*Angstrom)''
                          in (case append infile (Array2 flux) hdr s4 of
                                Inl e \<Rightarrow> (Some e, s4)
                              | Inr s5 \<Rightarrow> (None, s5)))))"

subsection \<open>Running quickspectra (source lines 193--196 and 320--324)\<close>

definition quickspectra_cmd :: "string \<Rightarrow> string \<Rightarrow> error + string" where
  "quickspectra_cmd infile specoutfile =
     format ''quickspectra -i {} -o {}'' [infile, specoutfile] []"

definition quickspectra_moon_cmd :: "string \<Rightarrow> string \<Rightarrow> error + string" where
  "quickspectra_moon_cmd infile specoutfile_moon =
     format ''quickspectra -i {} -o {} --moonfrac 0.9 --moonalt 70 --moonsep 20 --airmass 1.3''
       [infile, specoutfile_moon] []"

definition run_quickspectra :: "shell \<Rightarrow> cell" where
  "run_quickspectra sh s =
     (case vars s ''simdir'' of
        None \<Rightarrow> (Some (NameError ''simdir''), s)
      | Some simdir \<Rightarrow>
          let specoutfile = join simdir [''qso-observed-spectra.fits''];
              s1 = assign ''specoutfile'' specoutfile s
          in (case vars s1 ''infile'' of
                None \<Rightarrow> (Some (NameError ''infile''), s1)
              | Some infile \<Rightarrow>
                  (case quickspectra_cmd infile specoutfile of
                     Inl e \<Rightarrow> (Some e, s1)
                   | Inr cmd \<Rightarrow>
                       let s2 = assign ''cmd'' cmd s1;
                           s3 = print cmd s2
                       in (None, system sh cmd s3))))"

definition run_quickspectra_moon :: "shell \<Rightarrow> cell" where
  "run_quickspectra_moon sh s =
     (case vars s ''simdir'' of
        None \<Rightarrow> (Some (NameError ''simdir''), s)
      | Some simdir \<Rightarrow>
          let specoutfile_moon = join simdir [''qso-moon-spectra.fits''];
              s1 = assign ''specoutfile_moon'' specoutfile_moon s
          in (case vars s1 ''infile'' of
                None \<Rightarrow> (Some (NameError ''infile''), s1)
              | Some infile \<Rightarrow>
                  (case quickspectra_moon_cmd infile specoutfile_moon of
                     Inl e \<Rightarrow> (Some e, s1)
                   | Inr cmd \<Rightarrow>
                       let s2 = assign ''cmd'' cmd s1;
                           s3 = print cmd s2
                       in (None, system sh cmd s3))))"

subsection \<open>Running rrdesi (source lines 277--285 and 333--342)\<close>

text \<open>Both cells build the command by the same statements (lines 278--284 and 334--340):
  \<open>rrdesi_cmd\<close> returns the final value of \<^verbatim>\<open>cmd\<close>, the value of \<^verbatim>\<open>srun\<close> when it is
  assigned, and the lines printed on the way.\<close>

definition rrdesi_cmd ::
  "(string \<rightharpoonup> string) \<Rightarrow> string \<Rightarrow> string \<Rightarrow> error + (string \<times> string option \<times> string list)" where
  "rrdesi_cmd env specoutfile zoutfile =
     (case format ''rrdesi {} --zbest {}'' [specoutfile, zoutfile] [] of
        Inl e \<Rightarrow> Inl e
      | Inr cmd \<Rightarrow>
          if env ''NERSC_HOST'' \<noteq> None then
            let srun = ''srun -A desi -N 1 -t 00:10:00 -C haswell --qos interactive'' in
            (case format ''{srun} {cmd} --mp 32'' [] [(''srun'', srun), (''cmd'', cmd)] of
               Inl e \<Rightarrow> Inl e
             | Inr cmd' \<Rightarrow> Inr (cmd', Some srun, [''Running on a batch node:'', cmd, '''']))
          else Inr (cmd, None, []))"

definition assign_opt :: "string \<Rightarrow> string option \<Rightarrow> notebook \<Rightarrow> notebook" where
  "assign_opt v x s = (case x of None \<Rightarrow> s | Some y \<Rightarrow> assign v y s)"

definition run_rrdesi :: "shell \<Rightarrow> cell" where
  "run_rrdesi sh s =
     (case vars s ''simdir'' of
        None \<Rightarrow> (Some (NameError ''simdir''), s)
      | Some simdir \<Rightarrow>
          let zoutfile = join simdir [''qso-zbest.fits''];
              s1 = assign ''zoutfile'' zoutfile s
          in (case vars s1 ''specoutfile'' of
                None \<Rightarrow> (Some (NameError ''specoutfile''), s1)
              | Some specoutfile \<Rightarrow>
                  (case rrdesi_cmd (environ s1) specoutfile zoutfile of
                     Inl e \<Rightarrow> (Some e, s1)
                   | Inr (cmd, srun, printed) \<Rightarrow>
                       let s2 = assign ''cmd'' cmd (assign_opt ''srun'' srun s1);
                           s3 = foldl (\<lambda>t line. print line t) s2 printed
                       in (None, system sh cmd s3))))"

definition run_rrdesi_moon :: "shell \<Rightarrow> cell" where
  "run_rrdesi_moon sh s =
     (case vars s ''simdir'' of
        None \<Rightarrow> (Some (NameError ''simdir''), s)
      | Some simdir \<Rightarrow>
          let zoutfile_moon = join simdir [''qso-zbest-moon.fits''];
              s1 = assign ''zoutfile_moon'' zoutfile_moon s
          in (case vars s1 ''specoutfile_moon'' of
                None \<Rightarrow> (Some (NameError ''specoutfile_moon''), s1)
              | Some specoutfile_moon \<Rightarrow>
                  (case rrdesi_cmd (environ s1) specoutfile_moon zoutfile_moon of
                     Inl e \<Rightarrow> (Some e, s1)
                   | Inr (cmd, srun, printed) \<Rightarrow>
                       let s2 = assign ''cmd'' cmd (assign_opt ''srun'' srun s1);
                           s3 = foldl (\<lambda>t line. print line t) s2 printed;
                           s4 = print cmd s3
                       in (None, system sh cmd s4))))"

subsection \<open>The velocity offset (source lines 372 and 379)\<close>

text \<open>
  \<^verbatim>\<open>dv = 3e5*(zbest['Z'] - meta['REDSHIFT'])/(1+meta['REDSHIFT'])\<close> is numpy arithmetic on
  two table columns. Numbers are modelled as exact reals (the notebook computes in
  binary floating point, which rounds each operation by a relative \<open>2\<^sup>-\<^sup>5\<^sup>3\<close>). Two
  one-dimensional operands combine element by element when their lengths agree or one of
  them has length one, and raise otherwise. A float division by zero raises nothing: the
  element is \<open>inf\<close> or \<open>nan\<close>, written \<open>None\<close> here.
\<close>

definition broadcast :: "(real \<Rightarrow> real \<Rightarrow> 'b) \<Rightarrow> real list \<Rightarrow> real list \<Rightarrow> error + 'b list" where
  "broadcast f xs ys =
     (if length xs = length ys then Inr (map2 f xs ys)
      else if length xs = 1 then Inr (map (f (hd xs)) ys)
      else if length ys = 1 then Inr (map (\<lambda>x. f x (hd ys)) xs)
      else Inl ValueError)"

definition true_divide :: "real \<Rightarrow> real \<Rightarrow> real option" where
  "true_divide x y = (if y = 0 then None else Some (x / y))"

definition dv :: "real list \<Rightarrow> real list \<Rightarrow> error + real option list" where
  "dv Z REDSHIFT =
     (case broadcast (-) Z REDSHIFT of
        Inl e \<Rightarrow> Inl e
      | Inr d \<Rightarrow> broadcast true_divide (map ((*) 300000) d) (map ((+) 1) REDSHIFT))"

text \<open>The formula as the specification words it, with the speed of light 299792.458 km/s.\<close>

definition spec_dv :: "real \<Rightarrow> real \<Rightarrow> real" where
  "spec_dv z_fit z_true = 299792.458 * (z_fit - z_true) / (1 + z_true)"

subsection \<open>Reading a section back\<close>

text \<open>
  Modelled from the spec: the read-back of the file the writing cell produced. The
  notebook has no reader of this file (\<^verbatim>\<open>quickspectra\<close> reads it), so the reader follows
  the specification's ``labeled sections'': a section is found by its label, as
  \<^verbatim>\<open>fits.getdata(filename, extname)\<close> does, and yields the data of the first HDU whose
  \<^verbatim>\<open>EXTNAME\<close> is that label. A file is held as its headers and arrays; the bytes of the
  FITS encoding are not modelled, so that ``identical'' is equality of the arrays.
\<close>

fun find_section :: "fits_file \<Rightarrow> string \<Rightarrow> error + ndarray" where
  "find_section [] extname = Inl (KeyError extname)"
| "find_section (h # hs) extname =
     (if map_of (hdu_header h) ''EXTNAME'' = Some extname then Inr (hdu_data h)
      else find_section hs extname)"

definition getdata :: "path \<Rightarrow> string \<Rightarrow> notebook \<Rightarrow> error + ndarray" where
  "getdata filename extname s =
     (case files s filename of
        None \<Rightarrow> Inl (OSError filename)
      | Some hdus \<Rightarrow> find_section hdus extname)"

subsection \<open>Vocabulary of the statements and concrete inputs\<close>

text \<open>The unit annotation of the flux section as the specification prints it, in UTF-8:
  \<^verbatim>\<open>10^-17 erg/(s\<close>, a middle dot, \<^verbatim>\<open>cm\<close>, a superscript two, a middle dot, a capital A with
  ring, \<^verbatim>\<open>)\<close>.\<close>

definition spec_flux_unit :: string where
  "spec_flux_unit =
     ''10^-17 erg/(s'' @ [CHR 0xC2, CHR 0xB7] @ ''cm'' @
     [CHR 0xC2, CHR 0xB2, CHR 0xC2, CHR 0xB7, CHR 0xC3, CHR 0x85] @ '')''"

text \<open>A word the shell passes on unchanged as one argument: not empty, and made of
  letters, digits and \<^verbatim>\<open>/ . _ -\<close> only (no blank, quote or other metacharacter).\<close>

definition plain :: "string \<Rightarrow> bool" where
  "plain w =
     (w \<noteq> [] \<and>
      list_all
        (\<lambda>c. c \<in> set ''abcdefghijklmnopqrstuvwxyzABCDEFGHIJKLMNOPQRSTUVWXYZ0123456789/._-'') w)"

text \<open>An external program that fails at once: exit status 1, no file touched.\<close>

definition exit_1 :: shell where
  "exit_1 c env fs = (1, fs)"

text \<open>An external program that ends with exit status 255 and touches no file.\<close>

definition exit_255 :: shell where
  "exit_255 c env fs = (255, fs)"

text \<open>A notebook in which no cell has run yet, with \<^verbatim>\<open>SCRATCH=/scratch\<close>, an empty and
  writable file system, outside NERSC.\<close>

definition fresh :: notebook where
  "fresh =
     \<lparr>environ = [''SCRATCH'' \<mapsto> ''/scratch''], files = Map.empty, unwritable = {},
      vars = Map.empty, stdout = [], exit_code = None\<rparr>"

section \<open>Properties\<close>

subsection \<open>The velocity offset\<close>

lemma broadcast_same_length:
  "length xs = length ys \<Longrightarrow> broadcast f xs ys = Inr (map2 f xs ys)"
  by (simp add: broadcast_def)

lemma dv_same_length:
  "length Z = length REDSHIFT \<Longrightarrow>
     dv Z REDSHIFT =
       Inr (map2 true_divide (map ((*) 300000) (map2 (-) Z REDSHIFT)) (map ((+) 1) REDSHIFT))"
  by (simp add: dv_def broadcast_same_length)

text \<open>
  Claim C1, as the code has it: for columns of equal length the cell computes, for every
  object, \<open>dv = 300000 * (z_fit - z_true) / (1 + z_true)\<close>: the factor is the rounded
  \<^verbatim>\<open>3e5\<close>, not 299792.458. An object with \<open>1 + z_true = 0\<close> gets a non-finite value.
\<close>

theorem dv_per_object:
  assumes "length Z = length REDSHIFT"
  shows "\<exists>ds. dv Z REDSHIFT = Inr ds \<and> length ds = length REDSHIFT \<and>
           (\<forall>i<length REDSHIFT.
              ds ! i = (if 1 + REDSHIFT ! i = 0 then None
                        else Some (300000 * (Z ! i - REDSHIFT ! i) / (1 + REDSHIFT ! i))))"
  using assms by (simp add: dv_same_length true_divide_def)

theorem dv_per_object_witness:
  "\<exists>ds. dv [1.001, 3] [1, 2] = Inr ds \<and> length ds = 2 \<and> ds ! 0 = Some 150 \<and> ds ! 1 = Some 100000"
  using dv_per_object [of "[1.001, 3]" "[1, 2]"] by (auto simp: less_Suc_eq)

text \<open>
  Claim C1 as stated fails at its own example: for \<open>z_true = 1.0\<close> and \<open>z_fit = 1.001\<close> the
  cell yields 150, where the formula with 299792.458 gives 149.896229. At \<open>z_fit = 1.5\<close>
  every intermediate value is a binary fraction, so that no rounding is involved: the cell
  yields 75000 and the formula of the specification 74948.1145.
\<close>

theorem dv_speed_of_light_counterexample:
  "dv [1.001] [1] = Inr [Some 150] \<and> spec_dv 1.001 1 = 149.896229 \<and>
   dv [1.001] [1] \<noteq> Inr [Some (spec_dv 1.001 1)] \<and>
   dv [1.5] [1] = Inr [Some 75000] \<and> spec_dv 1.5 1 = 74948.1145"
  by (simp add: dv_def broadcast_def true_divide_def spec_dv_def)

subsection \<open>The command lines\<close>

lemma quickspectra_cmd_eq:
  "quickspectra_cmd infile specoutfile =
     Inr (''quickspectra -i '' @ infile @ '' -o '' @ specoutfile)"
  by (simp add: quickspectra_cmd_def format_def)

lemma quickspectra_moon_cmd_eq:
  "quickspectra_moon_cmd infile specoutfile_moon =
     Inr (''quickspectra -i '' @ infile @ '' -o '' @ specoutfile_moon @
          '' --moonfrac 0.9 --moonalt 70 --moonsep 20 --airmass 1.3'')"
  by (simp add: quickspectra_moon_cmd_def format_def)

lemma format_rrdesi:
  "format ''rrdesi {} --zbest {}'' [a, b] [] = Inr (''rrdesi '' @ a @ '' --zbest '' @ b)"
  by (simp add: format_def)

lemma format_srun:
  "format ''{srun} {cmd} --mp 32'' [] [(''srun'', a), (''cmd'', b)] =
     Inr (a @ '' '' @ b @ '' --mp 32'')"
  by (simp add: format_def)

lemma rrdesi_cmd_eq:
  "rrdesi_cmd env specoutfile zoutfile =
     (if env ''NERSC_HOST'' \<noteq> None
      then Inr (''srun -A desi -N 1 -t 00:10:00 -C haswell --qos interactive '' @
                (''rrdesi '' @ specoutfile @ '' --zbest '' @ zoutfile) @ '' --mp 32'',
                Some ''srun -A desi -N 1 -t 00:10:00 -C haswell --qos interactive'',
                [''Running on a batch node:'',
                 ''rrdesi '' @ specoutfile @ '' --zbest '' @ zoutfile, ''''])
      else Inr (''rrdesi '' @ specoutfile @ '' --zbest '' @ zoutfile, None, []))"
  by (simp add: rrdesi_cmd_def format_rrdesi format_srun)

text \<open>
  Claim C6, as the code has it: for every input and output path the simulation command
  is exactly \<^verbatim>\<open>quickspectra -i <input_file> -o <output_file>\<close>; the bright-moon cell adds
  \<^verbatim>\<open>--moonfrac 0.9 --moonalt 70 --moonsep 20 --airmass 1.3\<close>, in this order and with these
  literal values, and nothing else.
\<close>

theorem quickspectra_cmd_exact:
  "quickspectra_cmd infile specoutfile =
     Inr (''quickspectra -i '' @ infile @ '' -o '' @ specoutfile) \<and>
   quickspectra_moon_cmd infile specoutfile_moon =
     Inr (''quickspectra -i '' @ infile @ '' -o '' @ specoutfile_moon @
          '' --moonfrac 0.9 --moonalt 70 --moonsep 20 --airmass 1.3'')"
  by (simp add: quickspectra_cmd_eq quickspectra_moon_cmd_eq)

text \<open>Claim C6 as stated fails: the program named on the command line is
  \<^verbatim>\<open>quickspectra\<close>, not \<^verbatim>\<open>simulate\<close>.\<close>

theorem quickspectra_cmd_name_counterexample:
  "quickspectra_cmd ''in.fits'' ''out.fits'' = Inr ''quickspectra -i in.fits -o out.fits'' \<and>
   quickspectra_cmd ''in.fits'' ''out.fits'' \<noteq> Inr ''simulate -i in.fits -o out.fits''"
  by (simp add: quickspectra_cmd_def format_def)

text \<open>
  Claim C7, as the code has it: the fitting command is
  \<^verbatim>\<open>rrdesi <input_file> --zbest <output_file>\<close>; it is put behind the wrapper
  \<^verbatim>\<open>srun -A desi -N 1 -t 00:10:00 -C haswell --qos interactive\<close> if and only if
  \<^verbatim>\<open>NERSC_HOST\<close> is a key of the environment (whatever its value).
\<close>

theorem rrdesi_cmd_wrapper:
  "\<exists>cmd srun printed.
     rrdesi_cmd env specoutfile zoutfile = Inr (cmd, srun, printed) \<and>
     prefix ''srun '' cmd = (env ''NERSC_HOST'' \<noteq> None) \<and>
     cmd =
       (if env ''NERSC_HOST'' \<noteq> None
        then ''srun -A desi -N 1 -t 00:10:00 -C haswell --qos interactive '' else []) @
       ''rrdesi '' @ specoutfile @ '' --zbest '' @ zoutfile @
       (if env ''NERSC_HOST'' \<noteq> None then '' --mp 32'' else [])"
  by (simp add: rrdesi_cmd_eq)

text \<open>Claim C7 as stated fails: the base command names \<^verbatim>\<open>rrdesi\<close>, not
  \<^verbatim>\<open>fit-redshifts\<close>.\<close>

theorem rrdesi_cmd_name_counterexample:
  "rrdesi_cmd Map.empty ''in.fits'' ''out.fits'' =
     Inr (''rrdesi in.fits --zbest out.fits'', None, []) \<and>
   rrdesi_cmd Map.empty ''in.fits'' ''out.fits'' \<noteq>
     Inr (''fit-redshifts in.fits --zbest out.fits'', None, [])"
  by (simp add: rrdesi_cmd_def format_def)

subsection \<open>The arguments the shell passes on\<close>

lemma plain_no_blank: "plain w \<Longrightarrow> CHR '' '' \<notin> set w"
  by (auto simp: plain_def list_all_iff)

lemma split_words_word:
  "CHR '' '' \<notin> set w \<Longrightarrow> split_words u (w @ rest) = split_words (u @ w) rest"
  by (induction w arbitrary: u) auto

lemma split_words_plain:
  "plain w \<Longrightarrow> split_words [] (w @ CHR '' '' # rest) = w # split_words [] rest"
  using split_words_word [of w "[]" "CHR '' '' # rest"] plain_no_blank [of w]
  by (simp add: plain_def)

lemma split_words_plain_end:
  "plain w \<Longrightarrow> split_words [] w = [w]"
  using split_words_word [of w "[]" "[]"] plain_no_blank [of w]
  by (simp add: plain_def)

text \<open>
  Claim C10: \<^verbatim>\<open>srun\<close> is assigned exactly when \<^verbatim>\<open>NERSC_HOST\<close> is a key of the environment;
  the command is the bare \<^verbatim>\<open>rrdesi\<close> command when it is not, and
  \<^verbatim>\<open><srun> <rrdesi command> --mp 32\<close> when it is. For paths the shell passes on unchanged,
  the argument list therefore holds \<^verbatim>\<open>--mp\<close>, followed by \<^verbatim>\<open>32\<close>, exactly in the wrapped
  case, and no parallelism argument otherwise.
\<close>

theorem rrdesi_mp_only_with_srun:
  "\<exists>cmd srun printed.
     rrdesi_cmd env specoutfile zoutfile = Inr (cmd, srun, printed) \<and>
     (srun \<noteq> None) = (env ''NERSC_HOST'' \<noteq> None) \<and>
     cmd =
       (case srun of
          None \<Rightarrow> ''rrdesi '' @ specoutfile @ '' --zbest '' @ zoutfile
        | Some wrapper \<Rightarrow>
            wrapper @ '' '' @ (''rrdesi '' @ specoutfile @ '' --zbest '' @ zoutfile) @ '' --mp 32'') \<and>
     (plain specoutfile \<and> plain zoutfile \<longrightarrow>
        argv cmd =
          (if env ''NERSC_HOST'' \<noteq> None
           then [''srun'', ''-A'', ''desi'', ''-N'', ''1'', ''-t'', ''00:10:00'', ''-C'', ''haswell'',
                 ''--qos'', ''interactive'',
                 ''rrdesi'', specoutfile, ''--zbest'', zoutfile, ''--mp'', ''32'']
           else [''rrdesi'', specoutfile, ''--zbest'', zoutfile]))"
  by (simp add: rrdesi_cmd_eq argv_def split_words_plain split_words_plain_end)

theorem rrdesi_mp_only_with_srun_witness:
  "plain ''/scratch/desi/simspec/qso-observed-spectra.fits'' \<and>
   plain ''/scratch/desi/simspec/qso-zbest.fits'' \<and>
   (\<exists>cmd srun printed.
      rrdesi_cmd [''NERSC_HOST'' \<mapsto> ''cori'']
        ''/scratch/desi/simspec/qso-observed-spectra.fits''
        ''/scratch/desi/simspec/qso-zbest.fits'' = Inr (cmd, srun, printed) \<and>
      srun \<noteq> None \<and>
      argv cmd =
        [''srun'', ''-A'', ''desi'', ''-N'', ''1'', ''-t'', ''00:10:00'', ''-C'', ''haswell'',
         ''--qos'', ''interactive'', ''rrdesi'',
         ''/scratch/desi/simspec/qso-observed-spectra.fits'', ''--zbest'',
         ''/scratch/desi/simspec/qso-zbest.fits'', ''--mp'', ''32'']) \<and>
   (\<exists>cmd srun printed.
      rrdesi_cmd Map.empty
        ''/scratch/desi/simspec/qso-observed-spectra.fits''
        ''/scratch/desi/simspec/qso-zbest.fits'' = Inr (cmd, srun, printed) \<and>
      srun = None \<and>
      argv cmd =
        [''rrdesi'', ''/scratch/desi/simspec/qso-observed-spectra.fits'', ''--zbest'',
         ''/scratch/desi/simspec/qso-zbest.fits''])"
proof -
  have p: "plain ''/scratch/desi/simspec/qso-observed-spectra.fits''"
    "plain ''/scratch/desi/simspec/qso-zbest.fits''"
    by (simp_all add: plain_def)
  show ?thesis
    using p
      rrdesi_mp_only_with_srun [of "[''NERSC_HOST'' \<mapsto> ''cori'']"
        "''/scratch/desi/simspec/qso-observed-spectra.fits''"
        "''/scratch/desi/simspec/qso-zbest.fits''"]
      rrdesi_mp_only_with_srun [of Map.empty
        "''/scratch/desi/simspec/qso-observed-spectra.fits''"
        "''/scratch/desi/simspec/qso-zbest.fits''"]
    by auto
qed

subsection \<open>Writing the input spectra\<close>

lemma write_input_spectra_ok:
  assumes "environ s ''SCRATCH'' = Some scratch"
    and "simdir = join scratch [''desi'', ''simspec'']"
    and "infile = join simdir [''qso-input-spectra.fits'']"
    and "simdir \<notin> unwritable s" and "files s simdir = None" and "infile \<notin> unwritable s"
  shows "write_input_spectra wave flux s =
           (None,
            s\<lparr>files := (files s)(infile \<mapsto>
                 [\<lparr>hdu_header = [(''EXTNAME'', ''WAVELENGTH''), (''BUNIT'', ''Angstrom'')],
                   hdu_data = Array1 wave\<rparr>,
                  \<lparr>hdu_header = [(''EXTNAME'', ''FLUX''),
                                 (''BUNIT'', ''10^-17 erg/(s*cm^2*Angstrom)'')],
                   hdu_data = Array2 flux\<rparr>]),
              vars := (vars s)(''simdir'' \<mapsto> simdir, ''infile'' \<mapsto> infile)\<rparr>)"
  using assms
  by (simp add: write_input_spectra_def makedirs_def writeto_def append_def assign_def Let_def)



text \<open>
  Claim C3, as the code has it: when \<^verbatim>\<open>SCRATCH\<close> is set and the directory and the file can be
  written, the cell leaves at \<^verbatim>\<open>$SCRATCH/desi/simspec/qso-input-spectra.fits\<close> a file of
  exactly two HDUs, whatever was at that path before: \<^verbatim>\<open>WAVELENGTH\<close> holding the
  wavelength grid with \<^verbatim>\<open>BUNIT = Angstrom\<close>, then \<^verbatim>\<open>FLUX\<close> holding the flux table with
  \<^verbatim>\<open>BUNIT = 10^-17 erg/(s*cm^2*Angstrom)\<close>. No other file changes.
\<close>

theorem write_input_spectra_sections:
  assumes "environ s ''SCRATCH'' = Some scratch"
    and "simdir = join scratch [''desi'', ''simspec'']"
    and "infile = join simdir [''qso-input-spectra.fits'']"
    and "simdir \<notin> unwritable s" and "files s simdir = None" and "infile \<notin> unwritable s"
  shows "\<exists>s'. write_input_spectra wave flux s = (None, s') \<and>
           files s' infile =
             Some [\<lparr>hdu_header = [(''EXTNAME'', ''WAVELENGTH''), (''BUNIT'', ''Angstrom'')],
                    hdu_data = Array1 wave\<rparr>,
                   \<lparr>hdu_header = [(''EXTNAME'', ''FLUX''),
                                  (''BUNIT'', ''10^-17 erg/(s*cm^2*Angstrom)'')],
                    hdu_data = Array2 flux\<rparr>] \<and>
           (\<forall>p. p \<noteq> infile \<longrightarrow> files s' p = files s p)"
  by (simp add: write_input_spectra_ok [OF assms])

text \<open>The witness starts from a file system in which the target path already holds a file
  of one HDU: it is replaced.\<close>

theorem write_input_spectra_sections_witness:
  "\<exists>s'. write_input_spectra [3600, 3600.2] [[1, 2], [3, 4]]
           (fresh\<lparr>files := [''/scratch/desi/simspec/qso-input-spectra.fits'' \<mapsto>
                      [\<lparr>hdu_header = [(''EXTNAME'', ''OLD'')], hdu_data = Array1 [0]\<rparr>]]\<rparr>)
         = (None, s') \<and>
        files s' ''/scratch/desi/simspec/qso-input-spectra.fits'' =
          Some [\<lparr>hdu_header = [(''EXTNAME'', ''WAVELENGTH''), (''BUNIT'', ''Angstrom'')],
                 hdu_data = Array1 [3600, 3600.2]\<rparr>,
                \<lparr>hdu_header = [(''EXTNAME'', ''FLUX''),
                               (''BUNIT'', ''10^-17 erg/(s*cm^2*Angstrom)'')],
                 hdu_data = Array2 [[1, 2], [3, 4]]\<rparr>]"
proof -
  let ?infile = "''/scratch/desi/simspec/qso-input-spectra.fits''"
  let ?s = "fresh\<lparr>files := [?infile \<mapsto>
              [\<lparr>hdu_header = [(''EXTNAME'', ''OLD'')], hdu_data = Array1 [0]\<rparr>]]\<rparr>"
  have h1: "environ ?s ''SCRATCH'' = Some ''/scratch''"
    by (simp add: fresh_def)
  have h2: "''/scratch/desi/simspec'' = join ''/scratch'' [''desi'', ''simspec'']"
    by (simp add: join_def join_step_def endswith_sep_def)
  have h3: "?infile = join ''/scratch/desi/simspec'' [''qso-input-spectra.fits'']"
    by (simp add: join_def join_step_def endswith_sep_def)
  have h4: "''/scratch/desi/simspec'' \<notin> unwritable ?s"
    by (simp add: fresh_def)
  have h5: "files ?s ''/scratch/desi/simspec'' = None"
    by (simp add: fresh_def)
  have h6: "?infile \<notin> unwritable ?s"
    by (simp add: fresh_def)
  from write_input_spectra_sections [OF h1 h2 h3 h4 h5 h6, of "[3600, 3600.2]" "[[1, 2], [3, 4]]"]
  show ?thesis by blast
qed

text \<open>Claim C3 as stated fails: the unit annotation written for the flux section is the
  ASCII string \<^verbatim>\<open>10^-17 erg/(s*cm^2*Angstrom)\<close>, not the string of the specification.\<close>

theorem flux_unit_counterexample:
  "files (snd (write_input_spectra [3600, 3600.2] [[1, 2], [3, 4]] fresh))
     ''/scratch/desi/simspec/qso-input-spectra.fits'' =
     Some [\<lparr>hdu_header = [(''EXTNAME'', ''WAVELENGTH''), (''BUNIT'', ''Angstrom'')],
            hdu_data = Array1 [3600, 3600.2]\<rparr>,
           \<lparr>hdu_header = [(''EXTNAME'', ''FLUX''),
                          (''BUNIT'', ''10^-17 erg/(s*cm^2*Angstrom)'')],
            hdu_data = Array2 [[1, 2], [3, 4]]\<rparr>] \<and>
   ''10^-17 erg/(s*cm^2*Angstrom)'' \<noteq> spec_flux_unit"
  by (simp add: write_input_spectra_def makedirs_def writeto_def append_def assign_def Let_def
      fresh_def join_def join_step_def endswith_sep_def spec_flux_unit_def)




subsection \<open>Reading the written file back\<close>

text \<open>
  Claim C4: when the writing cell completes, reading the section \<^verbatim>\<open>WAVELENGTH\<close> of the
  file back yields the wavelength grid and reading the section \<^verbatim>\<open>FLUX\<close> yields the flux
  table, each equal to the array that was written, whatever the path held before.
\<close>

theorem write_then_read_back:
  assumes "environ s ''SCRATCH'' = Some scratch"
    and "simdir = join scratch [''desi'', ''simspec'']"
    and "infile = join simdir [''qso-input-spectra.fits'']"
    and "simdir \<notin> unwritable s" and "files s simdir = None" and "infile \<notin> unwritable s"
  shows "\<exists>s'. write_input_spectra wave flux s = (None, s') \<and>
           getdata infile ''WAVELENGTH'' s' = Inr (Array1 wave) \<and>
           getdata infile ''FLUX'' s' = Inr (Array2 flux)"
  by (simp add: write_input_spectra_ok [OF assms] getdata_def)

text \<open>The witness starts with a stale file at the target path whose only section is
  labelled \<^verbatim>\<open>FLUX\<close> and holds other data: what is read back is what was written.\<close>

theorem write_then_read_back_witness:
  "\<exists>s'. write_input_spectra [3600, 3600.2] [[1, 2], [3, 4]]
           (fresh\<lparr>files := [''/scratch/desi/simspec/qso-input-spectra.fits'' \<mapsto>
                      [\<lparr>hdu_header = [(''EXTNAME'', ''FLUX'')], hdu_data = Array2 [[9]]\<rparr>]]\<rparr>)
         = (None, s') \<and>
        getdata ''/scratch/desi/simspec/qso-input-spectra.fits'' ''WAVELENGTH'' s' =
          Inr (Array1 [3600, 3600.2]) \<and>
        getdata ''/scratch/desi/simspec/qso-input-spectra.fits'' ''FLUX'' s' =
          Inr (Array2 [[1, 2], [3, 4]])"
proof -
  let ?infile = "''/scratch/desi/simspec/qso-input-spectra.fits''"
  let ?s = "fresh\<lparr>files := [?infile \<mapsto>
              [\<lparr>hdu_header = [(''EXTNAME'', ''FLUX'')], hdu_data = Array2 [[9]]\<rparr>]]\<rparr>"
  have h1: "environ ?s ''SCRATCH'' = Some ''/scratch''"
    by (simp add: fresh_def)
  have h2: "''/scratch/desi/simspec'' = join ''/scratch'' [''desi'', ''simspec'']"
    by (simp add: join_def join_step_def endswith_sep_def)
  have h3: "?infile = join ''/scratch/desi/simspec'' [''qso-input-spectra.fits'']"
    by (simp add: join_def join_step_def endswith_sep_def)
  have h4: "''/scratch/desi/simspec'' \<notin> unwritable ?s"
    by (simp add: fresh_def)
  have h5: "files ?s ''/scratch/desi/simspec'' = None"
    by (simp add: fresh_def)
  have h6: "?infile \<notin> unwritable ?s"
    by (simp add: fresh_def)
  from write_then_read_back [OF h1 h2 h3 h4 h5 h6, of "[3600, 3600.2]" "[[1, 2], [3, 4]]"]
  show ?thesis .
qed

subsection \<open>Running the external programs\<close>

lemma ipython_exit_code_zero: "(ipython_exit_code status = 0) = (status = 0)"
  by (simp add: ipython_exit_code_def)

lemma system_fields:
  "exit_code (system sh c s) = Some (ipython_exit_code (fst (sh c (environ s) (files s))))"
  "files (system sh c s) = snd (sh c (environ s) (files s))"
  "vars (system sh c s) = vars s"
  "stdout (system sh c s) = stdout s"
  "environ (system sh c s) = environ s"
  by (simp_all add: system_def split: prod.splits)

lemma print_fields:
  "vars (print l s) = vars s"
  "files (print l s) = files s"
  "environ (print l s) = environ s"
  "stdout (print l s) = stdout s @ [l]"
  by (simp_all add: print_def)

lemma assign_fields:
  "vars (assign v x s) = (vars s)(v \<mapsto> x)"
  "files (assign v x s) = files s"
  "environ (assign v x s) = environ s"
  "stdout (assign v x s) = stdout s"
  by (simp_all add: assign_def)

lemma run_quickspectra_completes:
  assumes "vars s ''simdir'' = Some simdir" and "vars s ''infile'' = Some infile"
  shows "\<exists>cmd s'. run_quickspectra sh s = (None, s') \<and> vars s' ''cmd'' = Some cmd \<and>
           exit_code s' = Some (ipython_exit_code (fst (sh cmd (environ s) (files s)))) \<and>
           files s' = snd (sh cmd (environ s) (files s))"
  using assms
  by (simp add: run_quickspectra_def quickspectra_cmd_eq Let_def system_fields print_fields
      assign_fields)

lemma run_quickspectra_moon_completes:
  assumes "vars s ''simdir'' = Some simdir" and "vars s ''infile'' = Some infile"
  shows "\<exists>cmd s'. run_quickspectra_moon sh s = (None, s') \<and> vars s' ''cmd'' = Some cmd \<and>
           exit_code s' = Some (ipython_exit_code (fst (sh cmd (environ s) (files s)))) \<and>
           files s' = snd (sh cmd (environ s) (files s)) \<and>
           vars s' ''simdir'' = Some simdir \<and>
           vars s' ''specoutfile_moon'' = Some (join simdir [''qso-moon-spectra.fits''])"
  using assms
  by (simp add: run_quickspectra_moon_def quickspectra_moon_cmd_eq Let_def system_fields
      print_fields assign_fields)

lemma run_rrdesi_completes:
  assumes "vars s ''simdir'' = Some simdir" and "vars s ''specoutfile'' = Some specoutfile"
  shows "\<exists>cmd s'. run_rrdesi sh s = (None, s') \<and> vars s' ''cmd'' = Some cmd \<and>
           exit_code s' = Some (ipython_exit_code (fst (sh cmd (environ s) (files s)))) \<and>
           files s' = snd (sh cmd (environ s) (files s))"
  using assms
  by (simp add: run_rrdesi_def rrdesi_cmd_eq Let_def system_fields print_fields assign_fields
      assign_opt_def)

lemma run_rrdesi_moon_completes:
  assumes "vars s ''simdir'' = Some simdir"
    and "vars s ''specoutfile_moon'' = Some specoutfile_moon"
  shows "\<exists>cmd s'. run_rrdesi_moon sh s = (None, s') \<and> vars s' ''cmd'' = Some cmd \<and>
           exit_code s' = Some (ipython_exit_code (fst (sh cmd (environ s) (files s)))) \<and>
           files s' = snd (sh cmd (environ s) (files s))"
  using assms
  by (simp add: run_rrdesi_moon_def rrdesi_cmd_eq Let_def system_fields print_fields
      assign_fields assign_opt_def)

lemma moon_cells_in_sequence:
  assumes "vars s ''simdir'' = Some simdir" and "vars s ''infile'' = Some infile"
  shows "\<exists>s1 s2. run_quickspectra_moon sh s = (None, s1) \<and>
           run_rrdesi_moon sh s1 = (None, s2) \<and>
           run_all [run_quickspectra_moon sh, run_rrdesi_moon sh] s = (None, s2)"
proof -
  from run_quickspectra_moon_completes [OF assms, of sh]
  obtain s1 where s1: "run_quickspectra_moon sh s = (None, s1)"
    and v: "vars s1 ''simdir'' = Some simdir"
      "vars s1 ''specoutfile_moon'' = Some (join simdir [''qso-moon-spectra.fits''])"
    by blast
  from run_rrdesi_moon_completes [OF v, of sh]
  obtain s2 where s2: "run_rrdesi_moon sh s1 = (None, s2)"
    by blast
  from s1 s2 have "run_all [run_quickspectra_moon sh, run_rrdesi_moon sh] s = (None, s2)"
    by simp
  with s1 s2 show ?thesis by blast
qed

text \<open>
  Claim C2, as the code has it: each of the four cells that run \<^verbatim>\<open>quickspectra\<close> or
  \<^verbatim>\<open>rrdesi\<close>, once the variables that cell itself reads are defined, completes without
  raising whatever the program's exit status is. The status is only recorded in
  \<^verbatim>\<open>_exit_code\<close> (the status itself up to 128, 128 minus the status above), so that
  \<^verbatim>\<open>_exit_code\<close> is zero exactly when the status is; the files are whatever the program
  left. The bright-moon fit, the cell directly after the bright-moon simulation, is
  entered also after a failed simulation.
\<close>

theorem exit_status_not_raised:
  "(vars s ''simdir'' = Some simdir \<and> vars s ''infile'' = Some infile \<longrightarrow>
      (\<forall>c \<in> {run_quickspectra, run_quickspectra_moon}.
         \<exists>cmd s'. c sh s = (None, s') \<and> vars s' ''cmd'' = Some cmd \<and>
           exit_code s' = Some (ipython_exit_code (fst (sh cmd (environ s) (files s)))) \<and>
           (exit_code s' = Some 0) = (fst (sh cmd (environ s) (files s)) = 0) \<and>
           files s' = snd (sh cmd (environ s) (files s))) \<and>
      (\<exists>s1 s2. run_quickspectra_moon sh s = (None, s1) \<and>
         run_rrdesi_moon sh s1 = (None, s2) \<and>
         run_all [run_quickspectra_moon sh, run_rrdesi_moon sh] s = (None, s2))) \<and>
   (vars s ''simdir'' = Some simdir \<and> vars s ''specoutfile'' = Some specoutfile \<longrightarrow>
      (\<exists>cmd s'. run_rrdesi sh s = (None, s') \<and> vars s' ''cmd'' = Some cmd \<and>
         exit_code s' = Some (ipython_exit_code (fst (sh cmd (environ s) (files s)))) \<and>
         (exit_code s' = Some 0) = (fst (sh cmd (environ s) (files s)) = 0) \<and>
         files s' = snd (sh cmd (environ s) (files s)))) \<and>
   (vars s ''simdir'' = Some simdir \<and> vars s ''specoutfile_moon'' = Some specoutfile_moon \<longrightarrow>
      (\<exists>cmd s'. run_rrdesi_moon sh s = (None, s') \<and> vars s' ''cmd'' = Some cmd \<and>
         exit_code s' = Some (ipython_exit_code (fst (sh cmd (environ s) (files s)))) \<and>
         (exit_code s' = Some 0) = (fst (sh cmd (environ s) (files s)) = 0) \<and>
         files s' = snd (sh cmd (environ s) (files s))))"
proof (intro conjI impI)
  assume a: "vars s ''simdir'' = Some simdir \<and> vars s ''infile'' = Some infile"
  then have v: "vars s ''simdir'' = Some simdir" "vars s ''infile'' = Some infile"
    by simp_all
  from run_quickspectra_completes [OF v, of sh] run_quickspectra_moon_completes [OF v, of sh]
  show "\<forall>c \<in> {run_quickspectra, run_quickspectra_moon}.
         \<exists>cmd s'. c sh s = (None, s') \<and> vars s' ''cmd'' = Some cmd \<and>
           exit_code s' = Some (ipython_exit_code (fst (sh cmd (environ s) (files s)))) \<and>
           (exit_code s' = Some 0) = (fst (sh cmd (environ s) (files s)) = 0) \<and>
           files s' = snd (sh cmd (environ s) (files s))"
    by (auto simp: ipython_exit_code_zero)
  from moon_cells_in_sequence [OF v, of sh]
  show "\<exists>s1 s2. run_quickspectra_moon sh s = (None, s1) \<and>
         run_rrdesi_moon sh s1 = (None, s2) \<and>
         run_all [run_quickspectra_moon sh, run_rrdesi_moon sh] s = (None, s2)" .
next
  assume "vars s ''simdir'' = Some simdir \<and> vars s ''specoutfile'' = Some specoutfile"
  then have v: "vars s ''simdir'' = Some simdir" "vars s ''specoutfile'' = Some specoutfile"
    by simp_all
  from run_rrdesi_completes [OF v, of sh]
  show "\<exists>cmd s'. run_rrdesi sh s = (None, s') \<and> vars s' ''cmd'' = Some cmd \<and>
         exit_code s' = Some (ipython_exit_code (fst (sh cmd (environ s) (files s)))) \<and>
         (exit_code s' = Some 0) = (fst (sh cmd (environ s) (files s)) = 0) \<and>
         files s' = snd (sh cmd (environ s) (files s))"
    by (auto simp: ipython_exit_code_zero)
next
  assume "vars s ''simdir'' = Some simdir \<and>
          vars s ''specoutfile_moon'' = Some specoutfile_moon"
  then have v: "vars s ''simdir'' = Some simdir"
    "vars s ''specoutfile_moon'' = Some specoutfile_moon"
    by simp_all
  from run_rrdesi_moon_completes [OF v, of sh]
  show "\<exists>cmd s'. run_rrdesi_moon sh s = (None, s') \<and> vars s' ''cmd'' = Some cmd \<and>
         exit_code s' = Some (ipython_exit_code (fst (sh cmd (environ s) (files s)))) \<and>
         (exit_code s' = Some 0) = (fst (sh cmd (environ s) (files s)) = 0) \<and>
         files s' = snd (sh cmd (environ s) (files s))"
    by (auto simp: ipython_exit_code_zero)
qed

text \<open>
  The witness takes each cell in the state of a first pass through the notebook: the
  dark-time simulation right after the writing cell (only \<^verbatim>\<open>simdir\<close> and \<^verbatim>\<open>infile\<close> are
  defined), the dark-time fit once \<^verbatim>\<open>specoutfile\<close> is defined as well, the bright-moon
  fit once \<^verbatim>\<open>specoutfile_moon\<close> is. A program that exits with status 1 leaves
  \<^verbatim>\<open>_exit_code = 1\<close>, one that exits with status 255 leaves \<^verbatim>\<open>_exit_code = -127\<close>.
\<close>

theorem exit_status_not_raised_witness:
  "(\<exists>s'. run_quickspectra exit_1
           (fresh\<lparr>vars := [''simdir'' \<mapsto> ''/scratch/desi/simspec'',
              ''infile'' \<mapsto> ''/scratch/desi/simspec/qso-input-spectra.fits'']\<rparr>)
         = (None, s') \<and> exit_code s' = Some 1) \<and>
   (\<exists>s1 s2. run_quickspectra_moon exit_1
           (fresh\<lparr>vars := [''simdir'' \<mapsto> ''/scratch/desi/simspec'',
              ''infile'' \<mapsto> ''/scratch/desi/simspec/qso-input-spectra.fits'']\<rparr>)
         = (None, s1) \<and> run_rrdesi_moon exit_1 s1 = (None, s2)) \<and>
   (\<exists>s'. run_rrdesi exit_255
           (fresh\<lparr>vars := [''simdir'' \<mapsto> ''/scratch/desi/simspec'',
              ''infile'' \<mapsto> ''/scratch/desi/simspec/qso-input-spectra.fits'',
              ''specoutfile'' \<mapsto> ''/scratch/desi/simspec/qso-observed-spectra.fits'']\<rparr>)
         = (None, s') \<and> exit_code s' = Some (- 127)) \<and>
   (\<exists>s'. run_rrdesi_moon exit_1
           (fresh\<lparr>vars := [''simdir'' \<mapsto> ''/scratch/desi/simspec'',
              ''infile'' \<mapsto> ''/scratch/desi/simspec/qso-input-spectra.fits'',
              ''specoutfile'' \<mapsto> ''/scratch/desi/simspec/qso-observed-spectra.fits'',
              ''specoutfile_moon'' \<mapsto> ''/scratch/desi/simspec/qso-moon-spectra.fits'']\<rparr>)
         = (None, s') \<and> exit_code s' = Some 1)"
proof -
  let ?a = "fresh\<lparr>vars := [''simdir'' \<mapsto> ''/scratch/desi/simspec'',
              ''infile'' \<mapsto> ''/scratch/desi/simspec/qso-input-spectra.fits'']\<rparr>"
  let ?b = "fresh\<lparr>vars := [''simdir'' \<mapsto> ''/scratch/desi/simspec'',
              ''infile'' \<mapsto> ''/scratch/desi/simspec/qso-input-spectra.fits'',
              ''specoutfile'' \<mapsto> ''/scratch/desi/simspec/qso-observed-spectra.fits'']\<rparr>"
  let ?c = "fresh\<lparr>vars := [''simdir'' \<mapsto> ''/scratch/desi/simspec'',
              ''infile'' \<mapsto> ''/scratch/desi/simspec/qso-input-spectra.fits'',
              ''specoutfile'' \<mapsto> ''/scratch/desi/simspec/qso-observed-spectra.fits'',
              ''specoutfile_moon'' \<mapsto> ''/scratch/desi/simspec/qso-moon-spectra.fits'']\<rparr>"
  have va: "vars ?a ''simdir'' = Some ''/scratch/desi/simspec'' \<and>
      vars ?a ''infile'' = Some ''/scratch/desi/simspec/qso-input-spectra.fits''"
    by simp
  have vb: "vars ?b ''simdir'' = Some ''/scratch/desi/simspec'' \<and>
      vars ?b ''specoutfile'' = Some ''/scratch/desi/simspec/qso-observed-spectra.fits''"
    by simp
  have vc: "vars ?c ''simdir'' = Some ''/scratch/desi/simspec'' \<and>
      vars ?c ''specoutfile_moon'' = Some ''/scratch/desi/simspec/qso-moon-spectra.fits''"
    by simp
  note ta = exit_status_not_raised [of ?a "''/scratch/desi/simspec''"
      "''/scratch/desi/simspec/qso-input-spectra.fits''" exit_1]
  note tb = exit_status_not_raised [of ?b "''/scratch/desi/simspec''" _ exit_255
      "''/scratch/desi/simspec/qso-observed-spectra.fits''"]
  note tc = exit_status_not_raised [of ?c "''/scratch/desi/simspec''" _ exit_1 _
      "''/scratch/desi/simspec/qso-moon-spectra.fits''"]
  from ta va obtain cmd1 s1 where
    "run_quickspectra exit_1 ?a = (None, s1)"
    "exit_code s1 = Some (ipython_exit_code (fst (exit_1 cmd1 (environ ?a) (files ?a))))"
    by blast
  then have c1: "\<exists>s'. run_quickspectra exit_1 ?a = (None, s') \<and> exit_code s' = Some 1"
    by (simp add: exit_1_def ipython_exit_code_def)
  from ta va have c2: "\<exists>s1 s2. run_quickspectra_moon exit_1 ?a = (None, s1) \<and>
      run_rrdesi_moon exit_1 s1 = (None, s2)"
    by blast
  from tb vb obtain cmd3 s3 where
    "run_rrdesi exit_255 ?b = (None, s3)"
    "exit_code s3 = Some (ipython_exit_code (fst (exit_255 cmd3 (environ ?b) (files ?b))))"
    by blast
  then have c3: "\<exists>s'. run_rrdesi exit_255 ?b = (None, s') \<and> exit_code s' = Some (- 127)"
    by (simp add: exit_255_def ipython_exit_code_def)
  from tc vc obtain cmd4 s4 where
    "run_rrdesi_moon exit_1 ?c = (None, s4)"
    "exit_code s4 = Some (ipython_exit_code (fst (exit_1 cmd4 (environ ?c) (files ?c))))"
    by blast
  then have c4: "\<exists>s'. run_rrdesi_moon exit_1 ?c = (None, s') \<and> exit_code s' = Some 1"
    by (simp add: exit_1_def ipython_exit_code_def)
  from c1 c2 c3 c4 show ?thesis by blast
qed

text \<open>
  Claim C2 as stated fails. Run in order the writing cell, the bright-moon simulation and
  the bright-moon fit, with programs that exit with status 1 and write nothing: no cell
  raises, both commands are issued (their lines are on the standard output), and the last
  exit status is 1.
\<close>

theorem failed_subprocess_counterexample:
  "fst (run_all [write_input_spectra [3600, 3600.2] [[1, 2], [3, 4]],
                 run_quickspectra_moon exit_1, run_rrdesi_moon exit_1] fresh) = None \<and>
   exit_code (snd (run_all [write_input_spectra [3600, 3600.2] [[1, 2], [3, 4]],
                 run_quickspectra_moon exit_1, run_rrdesi_moon exit_1] fresh)) = Some 1 \<and>
   stdout (snd (run_all [write_input_spectra [3600, 3600.2] [[1, 2], [3, 4]],
                 run_quickspectra_moon exit_1, run_rrdesi_moon exit_1] fresh)) =
     [''quickspectra -i /scratch/desi/simspec/qso-input-spectra.fits -o /scratch/desi/simspec/qso-moon-spectra.fits --moonfrac 0.9 --moonalt 70 --moonsep 20 --airmass 1.3'',
      ''rrdesi /scratch/desi/simspec/qso-moon-spectra.fits --zbest /scratch/desi/simspec/qso-zbest-moon.fits''] \<and>
   fst (run_quickspectra exit_1
          (snd (write_input_spectra [3600, 3600.2] [[1, 2], [3, 4]] fresh))) = None \<and>
   exit_code (snd (run_quickspectra exit_1
          (snd (write_input_spectra [3600, 3600.2] [[1, 2], [3, 4]] fresh)))) = Some 1"
  by (simp add: write_input_spectra_def makedirs_def writeto_def append_def assign_def Let_def
      fresh_def join_def join_step_def endswith_sep_def run_quickspectra_moon_def
      run_quickspectra_def quickspectra_cmd_eq quickspectra_moon_cmd_eq
      run_rrdesi_moon_def rrdesi_cmd_eq system_def exit_1_def print_def assign_opt_def
      ipython_exit_code_def)

end
